theory Spec2Isabelle
  imports Complex_Main "HOL-Library.Multiset"
begin

section \<open>Data model\<close>

text \<open>
  The server of \<^verbatim>\<open>server.ts\<close> keeps four SQLite tables, a process-local list
  \<^verbatim>\<open>memoryPosts\<close> and an optional socket.io channel \<^verbatim>\<open>ioInstance\<close>.
  Request bodies are JSON objects. The identifiers and the fields of a post have the type
  the schema and the \<^verbatim>\<open>Post\<close> interface of \<^verbatim>\<open>types.ts\<close> give them, and \<open>None\<close>
  stands for a key that is absent (\<^verbatim>\<open>undefined\<close>) or \<^verbatim>\<open>null\<close>: the driver binds both
  as SQL NULL. The \<^verbatim>\<open>vote_type\<close> of a vote is any value \<^verbatim>\<open>req.body\<close> can hold.
\<close>

type_synonym number = rat

text \<open>
  A value of \<^verbatim>\<open>req.body\<close> as \<^verbatim>\<open>express.json()\<close> leaves it. A number is an IEEE double,
  carried as the rational it denotes (\<open>is_double\<close> says which rationals are doubles), or
  an infinity (\<^verbatim>\<open>JSON.parse\<close> gives one for a literal out of range; \<open>True\<close> is the
  negative one). \<open>Js_object\<close> stands for every array and object.
\<close>

datatype js_value =
    Js_undefined
  | Js_null
  | Js_boolean bool
  | Js_number number
  | Js_infinity bool
  | Js_string string
  | Js_object



text \<open>What a cell of a table holds.\<close>

datatype sql_value =
    Sql_null
  | Sql_number number
  | Sql_infinity bool
  | Sql_text string

text \<open>
  A string holding a date: either text the client sent, or the rendering
  \<^verbatim>\<open>new Date().toISOString()\<close> of a reading of the clock.
\<close>

datatype date_string = Text string | ISOString nat

record users_row =
  users_id :: "string option"
  users_name :: "string option"
  users_email :: "string option"
  users_avatar :: "string option"

text \<open>\<open>created_at\<close> is the reading of the clock that \<^verbatim>\<open>CURRENT_TIMESTAMP\<close> stored.\<close>

record posts_row =
  posts_id :: "string option"
  posts_user_id :: "string option"
  posts_place_name :: "string option"
  posts_description :: "string option"
  posts_lat :: "number option"
  posts_lng :: "number option"
  posts_distribution_time :: "date_string option"
  posts_created_at :: nat

text \<open>
  The surrogate \<^verbatim>\<open>id INTEGER PRIMARY KEY AUTOINCREMENT\<close> of votes and reports is never
  read or written by the server and is left out; a table is the list of its rows in
  insertion order.
\<close>

record votes_row =
  votes_post_id :: "string option"
  votes_user_id :: "string option"
  votes_vote_type :: sql_value

record reports_row =
  reports_post_id :: "string option"
  reports_user_id :: "string option"
  reports_reason :: "string option"

record store =
  users :: "users_row list"
  posts :: "posts_row list"
  votes :: "votes_row list"
  reports :: "reports_row list"

text \<open>
  \<^verbatim>\<open>getDb\<close> caches either the connected database or, when the connection or the schema
  failed, the mock object whose \<^verbatim>\<open>run\<close> does nothing, whose \<^verbatim>\<open>get\<close> returns
  \<^verbatim>\<open>null\<close> and whose \<^verbatim>\<open>all\<close> returns \<^verbatim>\<open>[]\<close>.
\<close>

datatype database = Sqlite store | Mock

text \<open>The JSON objects sent to clients: \<^verbatim>\<open>Post\<close> and \<^verbatim>\<open>VoteUpdate\<close>.\<close>

record post =
  p_id :: "string option"
  p_user_id :: "string option"
  p_user_name :: "string option"
  p_place_name :: "string option"
  p_description :: "string option"
  p_lat :: "number option"
  p_lng :: "number option"
  p_distribution_time :: "date_string option"
  p_true_votes :: nat
  p_false_votes :: nat
  p_created_at :: nat

record vote_update =
  vu_post_id :: "string option"
  vu_true_votes :: "nat option"
  vu_false_votes :: "nat option"

datatype event = Post_created post | Post_voted vote_update

datatype json =
    Posts "post list"
  | Post_json post
  | Error_json string
  | Vote_json vote_update
  | Success_json

record response =
  status :: nat
  body :: json

text \<open>Request bodies, as \<^verbatim>\<open>req.body\<close> is destructured by the three POST handlers.\<close>

record post_body =
  b_id :: "string option"
  b_user_id :: "string option"
  b_place_name :: "string option"
  b_description :: "string option"
  b_lat :: "number option"
  b_lng :: "number option"
  b_distribution_time :: "date_string option"

record vote_body =
  vb_post_id :: "string option"
  vb_user_id :: "string option"
  vb_vote_type :: js_value

record report_body =
  rb_post_id :: "string option"
  rb_user_id :: "string option"
  rb_reason :: "string option"

text \<open>
  What a request meets outside the program: the clock; whether each SQL statement the
  handler issues throws (I/O error, schema mismatch); for the first \<^verbatim>\<open>getDb\<close>, the
  content of the database file (\<open>None\<close>: initialisation failed); and the number, if any,
  that SQLite reads a text as when it stores it in a column of INTEGER affinity.
\<close>

datatype stmt =
    Insert_user | Insert_post | Select_new_post | Select_posts
  | Upsert_vote | Select_stats | Insert_report

record env =
  now :: nat
  fault :: "stmt \<Rightarrow> bool"
  db_file :: "store option"
  numeric_text :: "string \<Rightarrow> sql_value option"

datatype error = Sqlite_error | Constraint_error | Type_error

record server =
  db :: "database option"
  memoryPosts :: "post list"
  ioInstance :: "event list option"

section \<open>Module state\<close>

definition utf8 :: "nat list \<Rightarrow> string" where
  "utf8 bs = map char_of bs"

text \<open>The Bengali literals of the two sample posts, as their UTF-8 bytes.\<close>

definition sample_user_name :: string where
  "sample_user_name = utf8 [224, 166, 143, 224, 166, 161, 224, 166, 174, 224, 166, 191,
     224, 166, 168]"

definition sample_1_place_name :: string where
  "sample_1_place_name = utf8 [224, 166, 162, 224, 166, 190, 224, 166, 149, 224, 166, 190,
     32, 224, 166, 172, 224, 166, 191, 224, 166, 182, 224, 167, 141, 224, 166, 172, 224, 166,
     172, 224, 166, 191, 224, 166, 166, 224, 167, 141, 224, 166, 175, 224, 166, 190, 224, 166,
     178, 224, 167, 159, 32, 224, 166, 143, 224, 166, 178, 224, 166, 190, 224, 166, 149, 224,
     166, 190]"

definition sample_1_description :: string where
  "sample_1_description = utf8 [224, 166, 143, 224, 166, 150, 224, 166, 190, 224, 166, 168,
     224, 167, 135, 32, 224, 166, 168, 224, 166, 191, 224, 167, 159, 224, 166, 174, 224, 166,
     191, 224, 166, 164, 32, 224, 166, 176, 224, 166, 190, 224, 166, 164, 224, 167, 135, 32,
     224, 166, 172, 224, 166, 191, 224, 166, 176, 224, 166, 191, 224, 167, 159, 224, 166, 190,
     224, 166, 168, 224, 166, 191, 32, 224, 166, 172, 224, 166, 191, 224, 166, 164, 224, 166,
     176, 224, 166, 163, 32, 224, 166, 149, 224, 166, 176, 224, 166, 190, 32, 224, 166, 185,
     224, 167, 159, 224, 165, 164]"

definition sample_2_place_name :: string where
  "sample_2_place_name = utf8 [224, 166, 174, 224, 166, 191, 224, 166, 176, 224, 166, 170,
     224, 167, 129, 224, 166, 176, 32, 224, 167, 167, 224, 167, 166, 32, 224, 166, 151, 224,
     167, 139, 224, 166, 178, 224, 166, 154, 224, 166, 164, 224, 167, 141, 224, 166, 172, 224,
     166, 176]"

definition sample_2_description :: string where
  "sample_2_description = utf8 [224, 166, 182, 224, 167, 129, 224, 166, 149, 224, 167, 141,
     224, 166, 176, 224, 166, 172, 224, 166, 190, 224, 166, 176, 32, 224, 166, 156, 224, 167,
     129, 224, 166, 174, 224, 166, 190, 224, 166, 176, 32, 224, 166, 170, 224, 166, 176, 32,
     224, 166, 143, 224, 166, 150, 224, 166, 190, 224, 166, 168, 224, 167, 135, 32, 224, 166,
     150, 224, 166, 191, 224, 166, 154, 224, 167, 129, 224, 167, 156, 224, 166, 191, 32, 224,
     166, 170, 224, 166, 190, 224, 166, 147, 224, 167, 159, 224, 166, 190, 32, 224, 166, 175,
     224, 166, 190, 224, 167, 159, 224, 165, 164]"

text \<open>
  The initial value of \<^verbatim>\<open>memoryPosts\<close>. The literal is built when the module loads and
  calls \<^verbatim>\<open>new Date()\<close> four times; each sample takes the reading \<open>d\<close> of the clock
  for its \<open>distribution_time\<close> and the reading \<open>c\<close> for its \<open>created_at\<close>.
\<close>

definition sample_1 :: "nat \<Rightarrow> nat \<Rightarrow> post" where
  "sample_1 d c =
     \<lparr>p_id = Some ''sample-1'', p_user_id = Some ''system'',
      p_user_name = Some sample_user_name, p_place_name = Some sample_1_place_name,
      p_description = Some sample_1_description,
      p_lat = Some (23733 / 1000), p_lng = Some (90393 / 1000),
      p_distribution_time = Some (ISOString d),
      p_true_votes = 15, p_false_votes = 1, p_created_at = c\<rparr>"

definition sample_2 :: "nat \<Rightarrow> nat \<Rightarrow> post" where
  "sample_2 d c =
     \<lparr>p_id = Some ''sample-2'', p_user_id = Some ''system'',
      p_user_name = Some sample_user_name, p_place_name = Some sample_2_place_name,
      p_description = Some sample_2_description,
      p_lat = Some (23807 / 1000), p_lng = Some (90368 / 1000),
      p_distribution_time = Some (ISOString d),
      p_true_votes = 8, p_false_votes = 0, p_created_at = c\<rparr>"

text \<open>
  The module-level variables once \<^verbatim>\<open>startServer\<close> has run: \<^verbatim>\<open>db\<close> is still
  \<^verbatim>\<open>null\<close>, and \<^verbatim>\<open>ioInstance\<close> is a socket.io server (here: the log of what it
  emitted) unless \<^verbatim>\<open>NODE_ENV\<close> is \<^verbatim>\<open>"production"\<close>. The four numbers are the
  readings of the clock taken by the literal, in the order it takes them.
\<close>

definition startServer :: "bool \<Rightarrow> nat \<Rightarrow> nat \<Rightarrow> nat \<Rightarrow> nat \<Rightarrow> server" where
  "startServer production d1 c1 d2 c2 =
     \<lparr>db = None, memoryPosts = [sample_1 d1 c1, sample_2 d2 c2],
      ioInstance = (if production then None else Some [])\<rparr>"

definition getDb :: "server \<Rightarrow> env \<Rightarrow> database \<times> server" where
  "getDb s e =
     (case db s of
        Some d \<Rightarrow> (d, s)
      | None \<Rightarrow>
          (let d = (case db_file e of Some st \<Rightarrow> Sqlite st | None \<Rightarrow> Mock)
           in (d, s\<lparr>db := Some d\<rparr>)))"

definition emit :: "event \<Rightarrow> server \<Rightarrow> server" where
  "emit ev s = s\<lparr>ioInstance := map_option (\<lambda>evs. evs @ [ev]) (ioInstance s)\<rparr>"

section \<open>SQL statements\<close>

text \<open>
  Each definition is the effect of one statement of \<^verbatim>\<open>server.ts\<close> on the tables.
  A comparison with NULL is never true in SQL, and a NULL key never conflicts with
  another key (SQLite admits NULL in a \<^verbatim>\<open>TEXT PRIMARY KEY\<close> and in \<^verbatim>\<open>UNIQUE\<close> columns).
\<close>

text \<open>\<^verbatim>\<open>INSERT OR IGNORE INTO users (id, name) VALUES (?, ?)\<close> with the name "Anonymous User".\<close>

definition insert_or_ignore_user :: "store \<Rightarrow> string option \<Rightarrow> store" where
  "insert_or_ignore_user st uid =
     (if uid \<noteq> None \<and> uid \<in> set (map users_id (users st)) then st
      else st\<lparr>users := users st @
             [\<lparr>users_id = uid, users_name = Some ''Anonymous User'',
               users_email = None, users_avatar = None\<rparr>]\<rparr>)"

text \<open>
  \<^verbatim>\<open>INSERT INTO posts (id, user_id, place_name, description, lat, lng, distribution_time)\<close>:
  the primary key rejects an id that is already there, and \<open>created_at\<close> takes its default.
\<close>

definition insert_post :: "nat \<Rightarrow> store \<Rightarrow> post_body \<Rightarrow> error + store" where
  "insert_post t st b =
     (if b_id b \<noteq> None \<and> b_id b \<in> set (map posts_id (posts st)) then Inl Constraint_error
      else Inr (st\<lparr>posts := posts st @
             [\<lparr>posts_id = b_id b, posts_user_id = b_user_id b,
               posts_place_name = b_place_name b, posts_description = b_description b,
               posts_lat = b_lat b, posts_lng = b_lng b,
               posts_distribution_time = b_distribution_time b,
               posts_created_at = t\<rparr>]\<rparr>))"

text \<open>\<^verbatim>\<open>LEFT JOIN users u ON p.user_id = u.id\<close>, read for \<^verbatim>\<open>u.name\<close>; \<open>users.id\<close> is the primary key.\<close>

definition user_name_of :: "store \<Rightarrow> string option \<Rightarrow> string option" where
  "user_name_of st uid =
     (case uid of
        None \<Rightarrow> None
      | Some i \<Rightarrow> (case find (\<lambda>u. users_id u = Some i) (users st) of
                    None \<Rightarrow> None
                  | Some u \<Rightarrow> users_name u))"

text \<open>\<^verbatim>\<open>SELECT COUNT(*) FROM votes WHERE post_id = ? AND vote_type = k\<close>.\<close>

definition count_votes :: "store \<Rightarrow> string option \<Rightarrow> number \<Rightarrow> nat" where
  "count_votes st pid k =
     length (filter (\<lambda>v. pid \<noteq> None \<and> votes_post_id v = pid \<and> votes_vote_type v = Sql_number k)
       (votes st))"

text \<open>The row \<^verbatim>\<open>p.*, u.name as user_name, ... as true_votes, ... as false_votes\<close>.\<close>

definition select_row :: "store \<Rightarrow> posts_row \<Rightarrow> nat \<Rightarrow> nat \<Rightarrow> post" where
  "select_row st r tv fv =
     \<lparr>p_id = posts_id r, p_user_id = posts_user_id r,
      p_user_name = user_name_of st (posts_user_id r),
      p_place_name = posts_place_name r, p_description = posts_description r,
      p_lat = posts_lat r, p_lng = posts_lng r,
      p_distribution_time = posts_distribution_time r,
      p_true_votes = tv, p_false_votes = fv, p_created_at = posts_created_at r\<rparr>"

text \<open>
  \<^verbatim>\<open>ORDER BY p.created_at DESC\<close>. SQL leaves the order of rows with equal keys open; the
  model takes the reverse of a stable ascending sort.
\<close>

definition order_by_created_at_desc :: "posts_row list \<Rightarrow> posts_row list" where
  "order_by_created_at_desc rs = rev (sort_key posts_created_at rs)"

text \<open>
  The query of \<^verbatim>\<open>GET /api/posts\<close>: every row of \<open>posts\<close> with its two correlated
  \<^verbatim>\<open>COUNT\<close> subqueries, in the order of \<^verbatim>\<open>ORDER BY\<close>.
\<close>

definition with_tallies :: "store \<Rightarrow> posts_row \<Rightarrow> post" where
  "with_tallies st r =
     select_row st r (count_votes st (posts_id r) 1) (count_votes st (posts_id r) 0)"

definition select_posts :: "store \<Rightarrow> post list" where
  "select_posts st = map (with_tallies st) (order_by_created_at_desc (posts st))"

text \<open>
  \<^verbatim>\<open>SELECT p.*, u.name as user_name, 0 as true_votes, 0 as false_votes ... WHERE p.id = ?\<close>,
  read with \<^verbatim>\<open>get\<close>: the first row, or nothing.
\<close>

definition select_new_post :: "store \<Rightarrow> string option \<Rightarrow> post option" where
  "select_new_post st pid =
     (case pid of
        None \<Rightarrow> None
      | Some i \<Rightarrow> (case find (\<lambda>r. posts_id r = Some i) (posts st) of
                    None \<Rightarrow> None
                  | Some r \<Rightarrow> Some (select_row st r 0 0)))"

text \<open>
  What the driver makes of a value handed to \<^verbatim>\<open>run\<close>: numbers, strings and
  \<^verbatim>\<open>null\<close>/\<^verbatim>\<open>undefined\<close> are bound, anything else makes it throw a TypeError.
\<close>

fun bind :: "js_value \<Rightarrow> error + sql_value" where
  "bind Js_undefined = Inr Sql_null"
| "bind Js_null = Inr Sql_null"
| "bind (Js_number r) = Inr (Sql_number r)"
| "bind (Js_infinity neg) = Inr (Sql_infinity neg)"
| "bind (Js_string s) = Inr (Sql_text s)"
| "bind (Js_boolean b) = Inl Type_error"
| "bind Js_object = Inl Type_error"

text \<open>
  The column \<^verbatim>\<open>vote_type INTEGER\<close>: a text that SQLite reads as a number is stored as
  that number, any other value is stored as it is.
\<close>

fun integer_affinity :: "env \<Rightarrow> sql_value \<Rightarrow> sql_value" where
  "integer_affinity e (Sql_text s) =
     (case numeric_text e s of Some v \<Rightarrow> v | None \<Rightarrow> Sql_text s)"
| "integer_affinity e v = v"

text \<open>
  \<^verbatim>\<open>INSERT INTO votes (post_id, user_id, vote_type) VALUES (?, ?, ?)
  ON CONFLICT(post_id, user_id) DO UPDATE SET vote_type = excluded.vote_type\<close>,
  with the value \<open>x\<close> for the third parameter.
\<close>

definition vote_conflict :: "string option \<Rightarrow> string option \<Rightarrow> votes_row \<Rightarrow> bool" where
  "vote_conflict pid uid v \<longleftrightarrow>
     pid \<noteq> None \<and> uid \<noteq> None \<and> votes_post_id v = pid \<and> votes_user_id v = uid"

definition upsert_vote :: "store \<Rightarrow> string option \<Rightarrow> string option \<Rightarrow> sql_value \<Rightarrow> store" where
  "upsert_vote st pid uid x =
     (if list_ex (vote_conflict pid uid) (votes st)
      then st\<lparr>votes := map (\<lambda>v. if vote_conflict pid uid v
                               then v\<lparr>votes_vote_type := x\<rparr> else v) (votes st)\<rparr>
      else st\<lparr>votes := votes st @
             [\<lparr>votes_post_id = pid, votes_user_id = uid, votes_vote_type = x\<rparr>]\<rparr>)"

text \<open>The two \<^verbatim>\<open>COUNT\<close> subqueries of \<^verbatim>\<open>POST /api/votes\<close>, spread into the answer.\<close>

definition select_stats :: "store \<Rightarrow> string option \<Rightarrow> vote_update" where
  "select_stats st pid =
     \<lparr>vu_post_id = pid, vu_true_votes = Some (count_votes st pid 1),
      vu_false_votes = Some (count_votes st pid 0)\<rparr>"

text \<open>\<^verbatim>\<open>INSERT INTO reports (post_id, user_id, reason) VALUES (?, ?, ?)\<close>.\<close>

definition insert_report :: "store \<Rightarrow> report_body \<Rightarrow> store" where
  "insert_report st b =
     st\<lparr>reports := reports st @
       [\<lparr>reports_post_id = rb_post_id b, reports_user_id = rb_user_id b,
         reports_reason = rb_reason b\<rparr>]\<rparr>"

section \<open>Request handlers of server.ts\<close>

text \<open>\<^verbatim>\<open>!place_name\<close>: true of a missing field and of the empty string.\<close>

definition falsy :: "string option \<Rightarrow> bool" where
  "falsy x = (case x of None \<Rightarrow> True | Some s \<Rightarrow> s = [])"

subsection \<open>GET /api/posts\<close>

fun all_posts :: "env \<Rightarrow> database \<Rightarrow> error + post list" where
  "all_posts e Mock = Inr []"
| "all_posts e (Sqlite st) =
     (if fault e Select_posts then Inl Sqlite_error else Inr (select_posts st))"

definition list_posts :: "server \<Rightarrow> env \<Rightarrow> response \<times> server" where
  "list_posts s0 e =
     (let (database, s) = getDb s0 e in
      case all_posts e database of
        Inr ps \<Rightarrow> (\<lparr>status = 200, body = Posts (ps @ memoryPosts s)\<rparr>, s)
      | Inl err \<Rightarrow> (\<lparr>status = 200, body = Posts (memoryPosts s)\<rparr>, s))"

subsection \<open>POST /api/posts\<close>

text \<open>
  The inner \<^verbatim>\<open>try\<close>: three statements, each of which may throw; what was written before
  a throw stays written. The result is the database afterwards, and either the error
  caught or what \<^verbatim>\<open>get\<close> returned.
\<close>

fun try_db_first :: "env \<Rightarrow> database \<Rightarrow> post_body \<Rightarrow> database \<times> (error + post option)" where
  "try_db_first e Mock b = (Mock, Inr None)"
| "try_db_first e (Sqlite st) b =
     (if fault e Insert_user then (Sqlite st, Inl Sqlite_error)
      else let st1 = insert_or_ignore_user st (b_user_id b) in
        if fault e Insert_post then (Sqlite st1, Inl Sqlite_error)
        else case insert_post (now e) st1 b of
          Inl err \<Rightarrow> (Sqlite st1, Inl err)
        | Inr st2 \<Rightarrow>
            if fault e Select_new_post then (Sqlite st2, Inl Sqlite_error)
            else (Sqlite st2, Inr (select_new_post st2 (b_id b))))"

definition memPost :: "env \<Rightarrow> post_body \<Rightarrow> post" where
  "memPost e b =
     \<lparr>p_id = b_id b, p_user_id = b_user_id b, p_user_name = Some ''Anonymous User'',
      p_place_name = b_place_name b, p_description = b_description b,
      p_lat = b_lat b, p_lng = b_lng b, p_distribution_time = b_distribution_time b,
      p_true_votes = 0, p_false_votes = 0, p_created_at = now e\<rparr>"

definition fallback_to_memory :: "server \<Rightarrow> env \<Rightarrow> post_body \<Rightarrow> response \<times> server" where
  "fallback_to_memory s e b =
     (\<lparr>status = 201, body = Post_json (memPost e b)\<rparr>,
      emit (Post_created (memPost e b)) (s\<lparr>memoryPosts := memPost e b # memoryPosts s\<rparr>))"

definition create_post :: "server \<Rightarrow> env \<Rightarrow> post_body \<Rightarrow> response \<times> server" where
  "create_post s0 e b =
     (let (database, s) = getDb s0 e in
      if falsy (b_place_name b)
      then (\<lparr>status = 400, body = Error_json ''Place name is required''\<rparr>, s)
      else
        let (database', r) = try_db_first e database b;
            s' = s\<lparr>db := Some database'\<rparr>
        in case r of
             Inr (Some newPost) \<Rightarrow>
               (\<lparr>status = 201, body = Post_json newPost\<rparr>, emit (Post_created newPost) s')
           | Inr None \<Rightarrow> fallback_to_memory s' e b
           | Inl dbErr \<Rightarrow> fallback_to_memory s' e b)"

subsection \<open>POST /api/votes\<close>

definition zero_votes :: "string option \<Rightarrow> vote_update" where
  "zero_votes pid = \<lparr>vu_post_id = pid, vu_true_votes = Some 0, vu_false_votes = Some 0\<rparr>"

text \<open>
  On the mock, \<^verbatim>\<open>run\<close> binds nothing, \<^verbatim>\<open>stats\<close> is \<^verbatim>\<open>null\<close> and
  \<^verbatim>\<open>{ post_id, ...stats }\<close> has no tallies. On the database, the upsert throws when the
  statement fails or when the driver cannot bind \<^verbatim>\<open>vote_type\<close>.
\<close>

fun cast_vote_db :: "env \<Rightarrow> database \<Rightarrow> vote_body \<Rightarrow> database \<times> (error + vote_update)" where
  "cast_vote_db e Mock b =
     (Mock, Inr \<lparr>vu_post_id = vb_post_id b, vu_true_votes = None, vu_false_votes = None\<rparr>)"
| "cast_vote_db e (Sqlite st) b =
     (if fault e Upsert_vote then (Sqlite st, Inl Sqlite_error)
      else case bind (vb_vote_type b) of
        Inl err \<Rightarrow> (Sqlite st, Inl err)
      | Inr x \<Rightarrow>
          let st1 = upsert_vote st (vb_post_id b) (vb_user_id b) (integer_affinity e x) in
          if fault e Select_stats then (Sqlite st1, Inl Sqlite_error)
          else (Sqlite st1, Inr (select_stats st1 (vb_post_id b))))"

definition cast_vote :: "server \<Rightarrow> env \<Rightarrow> vote_body \<Rightarrow> response \<times> server" where
  "cast_vote s0 e b =
     (let (database, s) = getDb s0 e;
          (database', r) = cast_vote_db e database b;
          s' = s\<lparr>db := Some database'\<rparr>
      in case r of
           Inr stats \<Rightarrow> (\<lparr>status = 200, body = Vote_json stats\<rparr>, emit (Post_voted stats) s')
         | Inl err \<Rightarrow> (\<lparr>status = 200, body = Vote_json (zero_votes (vb_post_id b))\<rparr>, s'))"

subsection \<open>POST /api/reports\<close>

fun create_report_db :: "env \<Rightarrow> database \<Rightarrow> report_body \<Rightarrow> error + database" where
  "create_report_db e Mock b = Inr Mock"
| "create_report_db e (Sqlite st) b =
     (if fault e Insert_report then Inl Sqlite_error else Inr (Sqlite (insert_report st b)))"

definition create_report :: "server \<Rightarrow> env \<Rightarrow> report_body \<Rightarrow> response \<times> server" where
  "create_report s0 e b =
     (let (database, s) = getDb s0 e in
      case create_report_db e database b of
        Inr database' \<Rightarrow> (\<lparr>status = 201, body = Success_json\<rparr>, s\<lparr>db := Some database'\<rparr>)
      | Inl err \<Rightarrow> (\<lparr>status = 500, body = Error_json ''Failed to report''\<rparr>, s))"

subsection \<open>Sequences of requests\<close>

datatype request =
    List_posts
  | Create_post post_body
  | Cast_vote vote_body
  | Create_report report_body

fun handle :: "server \<Rightarrow> env \<times> request \<Rightarrow> response \<times> server" where
  "handle s (e, List_posts) = list_posts s e"
| "handle s (e, Create_post b) = create_post s e b"
| "handle s (e, Cast_vote b) = cast_vote s e b"
| "handle s (e, Create_report b) = create_report s e b"

fun run :: "server \<Rightarrow> (env \<times> request) list \<Rightarrow> server" where
  "run s [] = s"
| "run s (r # rs) = run (snd (handle s r)) rs"

text \<open>
  A create-post request takes the memory path when it has a place name and the inner
  \<^verbatim>\<open>try\<close> threw or read back nothing. \<open>memory_created\<close> lists the records that the
  requests of a run put into \<^verbatim>\<open>memoryPosts\<close>, in the order of the requests.
\<close>

definition falls_back :: "server \<Rightarrow> env \<Rightarrow> post_body \<Rightarrow> bool" where
  "falls_back s e b \<longleftrightarrow>
     \<not> falsy (b_place_name b) \<and>
     (case snd (try_db_first e (fst (getDb s e)) b) of
        Inr (Some newPost) \<Rightarrow> False
      | Inr None \<Rightarrow> True
      | Inl dbErr \<Rightarrow> True)"

fun memory_created :: "server \<Rightarrow> (env \<times> request) list \<Rightarrow> post list" where
  "memory_created s [] = []"
| "memory_created s ((e, Create_post b) # rs) =
     (if falls_back s e b then [memPost e b] else [])
       @ memory_created (snd (create_post s e b)) rs"
| "memory_created s ((e, List_posts) # rs) = memory_created (snd (list_posts s e)) rs"
| "memory_created s ((e, Cast_vote b) # rs) = memory_created (snd (cast_vote s e b)) rs"
| "memory_created s ((e, Create_report b) # rs) = memory_created (snd (create_report s e b)) rs"

section \<open>The create-post handler of the second server file\<close>

text \<open>
  The repository holds a second copy of the server (\<^verbatim>\<open>src/unnamed/part_000\<close>). It opens
  the database when the module loads, so \<^verbatim>\<open>db\<close> is always a connected database, and
  its \<^verbatim>\<open>memoryPosts\<close> starts empty. Its \<^verbatim>\<open>POST /api/posts\<close> handler runs the three
  statements in one \<^verbatim>\<open>try\<close>, emits and returns whatever \<^verbatim>\<open>get\<close> gave (a row, or
  \<^verbatim>\<open>undefined\<close>, here \<open>None\<close>), and on any throw falls back to memory. It has no
  check of \<^verbatim>\<open>place_name\<close>.
\<close>

record server_000 =
  db_000 :: store
  memoryPosts_000 :: "post list"
  ioInstance_000 :: "post option list option"

record response_000 =
  status_000 :: nat
  body_000 :: "post option"

definition emit_000 :: "post option \<Rightarrow> server_000 \<Rightarrow> server_000" where
  "emit_000 payload s =
     s\<lparr>ioInstance_000 := map_option (\<lambda>evs. evs @ [payload]) (ioInstance_000 s)\<rparr>"

definition fallback_to_memory_000 ::
    "server_000 \<Rightarrow> env \<Rightarrow> post_body \<Rightarrow> response_000 \<times> server_000" where
  "fallback_to_memory_000 s e b =
     (\<lparr>status_000 = 201, body_000 = Some (memPost e b)\<rparr>,
      emit_000 (Some (memPost e b)) (s\<lparr>memoryPosts_000 := memPost e b # memoryPosts_000 s\<rparr>))"

definition create_post_000 ::
    "server_000 \<Rightarrow> env \<Rightarrow> post_body \<Rightarrow> response_000 \<times> server_000" where
  "create_post_000 s e b =
     (if fault e Insert_user then fallback_to_memory_000 s e b
      else let st1 = insert_or_ignore_user (db_000 s) (b_user_id b) in
        if fault e Insert_post then fallback_to_memory_000 (s\<lparr>db_000 := st1\<rparr>) e b
        else case insert_post (now e) st1 b of
          Inl err \<Rightarrow> fallback_to_memory_000 (s\<lparr>db_000 := st1\<rparr>) e b
        | Inr st2 \<Rightarrow>
            if fault e Select_new_post then fallback_to_memory_000 (s\<lparr>db_000 := st2\<rparr>) e b
            else let newPost = select_new_post st2 (b_id b) in
              (\<lparr>status_000 = 201, body_000 = newPost\<rparr>, emit_000 newPost (s\<lparr>db_000 := st2\<rparr>)))"

section \<open>Schema invariants and orderings\<close>

text \<open>
  \<^verbatim>\<open>UNIQUE(post_id, user_id)\<close>: a row whose two keys are not NULL is the only row with
  these keys.
\<close>

definition unique_votes :: "store \<Rightarrow> bool" where
  "unique_votes st \<longleftrightarrow>
     list_all (\<lambda>v. votes_post_id v \<noteq> None \<and> votes_user_id v \<noteq> None \<longrightarrow>
        length (filter (vote_conflict (votes_post_id v) (votes_user_id v)) (votes st)) = 1)
       (votes st)"



text \<open>
  The votes on post \<open>p\<close> with the value \<open>k\<close> that are not the vote of user \<open>u\<close>.
\<close>

definition other_votes :: "store \<Rightarrow> string \<Rightarrow> string \<Rightarrow> number \<Rightarrow> nat" where
  "other_votes st p u k =
     length (filter (\<lambda>v. votes_post_id v = Some p \<and> votes_user_id v \<noteq> Some u
                          \<and> votes_vote_type v = Sql_number k) (votes st))"

text \<open>A list of posts in which no post is followed by one created later.\<close>

definition newest_first :: "post list \<Rightarrow> bool" where
  "newest_first ps = sorted_wrt (\<lambda>a b. p_created_at b \<le> p_created_at a) ps"

section \<open>Concrete requests\<close>

definition empty_store :: store where
  "empty_store = \<lparr>users = [], posts = [], votes = [], reports = []\<rparr>"

text \<open>A request at time \<open>t\<close> during which no statement throws, and one during which all do.\<close>

definition quiet :: "nat \<Rightarrow> env" where
  "quiet t = \<lparr>now = t, fault = (\<lambda>q. False), db_file = Some empty_store,
     numeric_text = (\<lambda>s. None)\<rparr>"

definition failing :: "nat \<Rightarrow> env" where
  "failing t = \<lparr>now = t, fault = (\<lambda>q. True), db_file = Some empty_store,
     numeric_text = (\<lambda>s. None)\<rparr>"

definition test_mosque :: post_body where
  "test_mosque =
     \<lparr>b_id = Some ''post_1'', b_user_id = Some ''user_1'',
      b_place_name = Some ''Test Mosque'', b_description = Some ''biriyani'',
      b_lat = Some (237 / 10), b_lng = Some (904 / 10), b_distribution_time = None\<rparr>"

definition no_place_name :: post_body where
  "no_place_name =
     \<lparr>b_id = Some ''post_1'', b_user_id = Some ''user_1'',
      b_place_name = None, b_description = Some ''biriyani'',
      b_lat = Some (237 / 10), b_lng = Some (904 / 10), b_distribution_time = None\<rparr>"

definition no_user_id :: "string \<Rightarrow> post_body" where
  "no_user_id i =
     \<lparr>b_id = Some i, b_user_id = None,
      b_place_name = Some ''Test Mosque'', b_description = Some ''biriyani'',
      b_lat = Some (237 / 10), b_lng = Some (904 / 10), b_distribution_time = None\<rparr>"

definition vote_of :: "string \<Rightarrow> string \<Rightarrow> number \<Rightarrow> vote_body" where
  "vote_of p u k = \<lparr>vb_post_id = Some p, vb_user_id = Some u, vb_vote_type = Js_number k\<rparr>"

definition boolean_vote :: vote_body where
  "boolean_vote =
     \<lparr>vb_post_id = Some ''post_1'', vb_user_id = Some ''user_1'',
      vb_vote_type = Js_boolean True\<rparr>"

definition spam_report :: report_body where
  "spam_report =
     \<lparr>rb_post_id = Some ''post_1'', rb_user_id = Some ''user_1'', rb_reason = Some ''spam''\<rparr>"


definition fresh_000 :: server_000 where
  "fresh_000 = \<lparr>db_000 = empty_store, memoryPosts_000 = [], ioInstance_000 = Some []\<rparr>"

lemmas handler_defs = create_post_def cast_vote_def create_report_def list_posts_def getDb_def
  startServer_def emit_def fallback_to_memory_def memPost_def falsy_def zero_votes_def Let_def

lemmas sql_defs = insert_or_ignore_user_def insert_post_def select_new_post_def select_row_def
  user_name_of_def count_votes_def upsert_vote_def select_stats_def insert_report_def
  vote_conflict_def select_posts_def with_tallies_def order_by_created_at_desc_def

lemmas fixture_defs = empty_store_def quiet_def failing_def test_mosque_def no_place_name_def
  no_user_id_def vote_of_def boolean_vote_def spam_report_def fresh_000_def

section \<open>Facts about the handlers\<close>

lemma getDb_memoryPosts: "memoryPosts (snd (getDb s e)) = memoryPosts s"
  by (simp add: getDb_def Let_def split: option.splits)

lemma getDb_ioInstance: "ioInstance (snd (getDb s e)) = ioInstance s"
  by (simp add: getDb_def Let_def split: option.splits)

lemma getDb_db: "db (snd (getDb s e)) = Some (fst (getDb s e))"
  by (simp add: getDb_def Let_def split: option.splits)

lemma getDb_cached: "getDb (emit ev (s\<lparr>db := Some d\<rparr>)) e = (d, emit ev (s\<lparr>db := Some d\<rparr>))"
  by (simp add: getDb_def emit_def)

lemma list_posts_body:
  "fst (list_posts s e) = \<lparr>status = 200, body = Posts
     ((case all_posts e (fst (getDb s e)) of Inr ps \<Rightarrow> ps | Inl err \<Rightarrow> []) @ memoryPosts s)\<rparr>"
  using getDb_memoryPosts[of s e]
  by (cases "getDb s e") (auto simp: list_posts_def split: sum.splits)

lemma list_posts_state: "snd (list_posts s e) = snd (getDb s e)"
  by (cases "getDb s e") (auto simp: list_posts_def split: sum.splits)

text \<open>A request with a place name takes the store path or the memory path.\<close>

lemma create_post_cases:
  assumes "\<not> falsy (b_place_name b)"
  shows "(\<exists>d' p. try_db_first e (fst (getDb s e)) b = (d', Inr (Some p)) \<and>
            create_post s e b = (\<lparr>status = 201, body = Post_json p\<rparr>,
              emit (Post_created p) ((snd (getDb s e))\<lparr>db := Some d'\<rparr>)))
       \<or> (\<exists>d'. fst (try_db_first e (fst (getDb s e)) b) = d' \<and>
            create_post s e b = fallback_to_memory ((snd (getDb s e))\<lparr>db := Some d'\<rparr>) e b)"
  using assms
  by (auto simp: create_post_def Let_def split: prod.splits sum.splits option.splits)

lemma create_post_rejected:
  assumes "falsy (b_place_name b)"
  shows "create_post s e b =
           (\<lparr>status = 400, body = Error_json ''Place name is required''\<rparr>, snd (getDb s e))"
  using assms by (simp add: create_post_def split: prod.splits)

text \<open>The store a vote leaves when its statements succeed.\<close>

lemma cast_vote_ok:
  assumes "fst (getDb s e) = Sqlite st" "\<not> fault e Upsert_vote" "\<not> fault e Select_stats"
    and "bind (vb_vote_type b) = Inr x"
    and "st' = upsert_vote st (vb_post_id b) (vb_user_id b) (integer_affinity e x)"
  shows "cast_vote s e b =
           (\<lparr>status = 200, body = Vote_json (select_stats st' (vb_post_id b))\<rparr>,
            emit (Post_voted (select_stats st' (vb_post_id b)))
              ((snd (getDb s e))\<lparr>db := Some (Sqlite st')\<rparr>))"
  using assms by (auto simp: cast_vote_def Let_def split: prod.splits)


text \<open>Only the memory path of create-post touches \<^verbatim>\<open>memoryPosts\<close>, and it prepends.\<close>

lemma handle_memoryPosts:
  "memoryPosts (snd (handle s (e, r))) = memoryPosts s
   \<or> (\<exists>b. r = Create_post b \<and> memoryPosts (snd (handle s (e, r))) = memPost e b # memoryPosts s)"
  by (cases r)
    (auto simp: list_posts_def create_post_def cast_vote_def create_report_def
      fallback_to_memory_def emit_def Let_def getDb_def
      split: prod.splits sum.splits option.splits if_splits)

lemma run_memoryPosts_suffix: "\<exists>new. memoryPosts (run s rs) = new @ memoryPosts s"
proof (induction rs arbitrary: s)
  case Nil
  then show ?case by simp
next
  case (Cons r rs)
  obtain e q where r: "r = (e, q)" by (cases r)
  from Cons.IH[of "snd (handle s r)"] obtain new
    where n: "memoryPosts (run (snd (handle s r)) rs) = new @ memoryPosts (snd (handle s r))"
    by blast
  from handle_memoryPosts[of s e q] show ?case
    unfolding r using n r by auto
qed

lemma create_post_memoryPosts:
  "memoryPosts (snd (create_post s e b))
     = (if falls_back s e b then [memPost e b] else []) @ memoryPosts s"
  using getDb_memoryPosts[of s e]
  by (auto simp: create_post_def falls_back_def fallback_to_memory_def emit_def Let_def
      split: prod.splits sum.splits option.splits)

lemma falls_back_answer:
  assumes "falls_back s e b"
  shows "fst (create_post s e b) = \<lparr>status = 201, body = Post_json (memPost e b)\<rparr>"
  using assms
  by (auto simp: create_post_def falls_back_def fallback_to_memory_def Let_def
      split: prod.splits sum.splits option.splits)

lemma other_handlers_memoryPosts:
  "memoryPosts (snd (list_posts s e)) = memoryPosts s"
  "memoryPosts (snd (cast_vote s e vb)) = memoryPosts s"
  "memoryPosts (snd (create_report s e rb)) = memoryPosts s"
  using getDb_memoryPosts[of s e]
  by (auto simp: list_posts_def cast_vote_def create_report_def emit_def Let_def
      split: prod.splits sum.splits)

text \<open>\<^verbatim>\<open>memoryPosts\<close> is what it was, with the records created since in front, last first.\<close>

lemma run_memoryPosts: "memoryPosts (run s rs) = rev (memory_created s rs) @ memoryPosts s"
proof (induction s rs rule: memory_created.induct)
  case (1 s)
  then show ?case by simp
next
  case (2 s e b rs)
  then show ?case by (simp add: create_post_memoryPosts)
next
  case (3 s e rs)
  then show ?case by (simp add: other_handlers_memoryPosts)
next
  case (4 s e b rs)
  then show ?case by (simp add: other_handlers_memoryPosts)
next
  case (5 s e b rs)
  then show ?case by (simp add: other_handlers_memoryPosts)
qed

text \<open>
  Each record carries the clock reading of its request, so the records are in the order of
  the clock when its readings do not decrease.
\<close>

lemma memory_created_sorted:
  assumes "sorted (t # map (\<lambda>r. now (fst r)) rs)"
  shows "sorted (map p_created_at (memory_created s rs))
     \<and> (\<forall>x\<in>set (memory_created s rs). t \<le> p_created_at x)"
  using assms
proof (induction s rs arbitrary: t rule: memory_created.induct)
  case (1 s)
  then show ?case by simp
next
  case (2 s e b rs)
  from "2.prems" have t: "t \<le> now e" and srt: "sorted (now e # map (\<lambda>r. now (fst r)) rs)"
    by auto
  from "2.IH"[OF srt]
  have ih: "sorted (map p_created_at (memory_created (snd (create_post s e b)) rs))"
    "\<forall>x\<in>set (memory_created (snd (create_post s e b)) rs). now e \<le> p_created_at x"
    by simp_all
  from ih(2) t have "\<forall>x\<in>set (memory_created (snd (create_post s e b)) rs). t \<le> p_created_at x"
    by (meson order_trans)
  with ih t show ?case by (simp add: memPost_def)
next
  case (3 s e rs)
  from "3.prems" have t: "t \<le> now e" and srt: "sorted (now e # map (\<lambda>r. now (fst r)) rs)"
    by auto
  from "3.IH"[OF srt] t show ?case by (auto intro: order_trans)
next
  case (4 s e b rs)
  from "4.prems" have t: "t \<le> now e" and srt: "sorted (now e # map (\<lambda>r. now (fst r)) rs)"
    by auto
  from "4.IH"[OF srt] t show ?case by (auto intro: order_trans)
next
  case (5 s e b rs)
  from "5.prems" have t: "t \<le> now e" and srt: "sorted (now e # map (\<lambda>r. now (fst r)) rs)"
    by auto
  from "5.IH"[OF srt] t show ?case by (auto intro: order_trans)
qed

lemma memory_created_newest_first:
  assumes "sorted (map (\<lambda>r. now (fst r)) rs)"
  shows "newest_first (rev (memory_created s rs))"
proof -
  from assms have "sorted (0 # map (\<lambda>r. now (fst r)) rs)" by simp
  from memory_created_sorted[OF this]
  have "sorted (map p_created_at (memory_created s rs))" by simp
  then show ?thesis
    by (simp add: newest_first_def sorted_wrt_rev sorted_wrt_map)
qed

section \<open>Facts about the statements\<close>

lemma select_new_post_zero:
  "select_new_post st pid = Some p \<Longrightarrow> p_true_votes p = 0 \<and> p_false_votes p = 0"
  by (auto simp: select_new_post_def select_row_def split: option.splits)

lemma try_db_first_zero:
  "try_db_first e d b = (d', Inr (Some p)) \<Longrightarrow> p_true_votes p = 0 \<and> p_false_votes p = 0"
  by (cases d) (auto simp: Let_def select_new_post_zero split: if_splits sum.splits)

lemma newest_first_select_posts: "newest_first (select_posts st)"
proof -
  have "sorted (map posts_created_at (sort_key posts_created_at (posts st)))"
    by (rule sorted_sort_key)
  then have "sorted_wrt (\<lambda>a b. posts_created_at a \<le> posts_created_at b)
      (sort_key posts_created_at (posts st))"
    by (simp add: sorted_wrt_map)
  then have "sorted_wrt (\<lambda>a b. posts_created_at b \<le> posts_created_at a)
      (rev (sort_key posts_created_at (posts st)))"
    by (simp add: sorted_wrt_rev)
  then show ?thesis
    by (simp add: newest_first_def select_posts_def with_tallies_def
        order_by_created_at_desc_def sorted_wrt_map select_row_def)
qed

lemma mset_select_posts:
  "mset (select_posts st) = image_mset (with_tallies st) (mset (posts st))"
  by (simp add: select_posts_def order_by_created_at_desc_def)

lemma select_posts_tallies:
  assumes "q \<in> set (select_posts st)"
  shows "p_true_votes q = count_votes st (p_id q) 1 \<and> p_false_votes q = count_votes st (p_id q) 0"
  using assms by (auto simp: select_posts_def with_tallies_def select_row_def)

text \<open>The unique key of \<open>votes\<close> is kept by the upsert.\<close>

lemma unique_votes_le1:
  assumes "unique_votes st"
  shows "length (filter (vote_conflict (Some p) (Some u)) (votes st)) \<le> 1"
proof (cases "filter (vote_conflict (Some p) (Some u)) (votes st)")
  case Nil
  then show ?thesis by simp
next
  case (Cons v vs)
  then have "v \<in> set (filter (vote_conflict (Some p) (Some u)) (votes st))" by simp
  then have v: "v \<in> set (votes st)" "votes_post_id v = Some p" "votes_user_id v = Some u"
    by (auto simp: vote_conflict_def)
  with assms show ?thesis
    by (auto simp: unique_votes_def list_all_iff)
qed

lemma conflict_map_vote_type:
  "filter (vote_conflict a b) (map (\<lambda>v. if c v then v\<lparr>votes_vote_type := x\<rparr> else v) vs)
   = map (\<lambda>v. if c v then v\<lparr>votes_vote_type := x\<rparr> else v) (filter (vote_conflict a b) vs)"
  by (induction vs) (auto simp: vote_conflict_def)

lemma unique_votes_upsert:
  assumes "unique_votes st"
  shows "unique_votes (upsert_vote st pid uid x)"
proof (cases "list_ex (vote_conflict pid uid) (votes st)")
  case True
  with assms show ?thesis
    by (auto simp: unique_votes_def upsert_vote_def list_all_iff conflict_map_vote_type)
next
  case False
  then have none: "filter (vote_conflict pid uid) (votes st) = []"
    by (auto simp: list_ex_iff filter_empty_conv)
  have other: "\<not> vote_conflict (votes_post_id v) (votes_user_id v)
         \<lparr>votes_post_id = pid, votes_user_id = uid, votes_vote_type = x\<rparr>"
    if "v \<in> set (votes st)" for v
    using that False by (auto simp: vote_conflict_def list_ex_iff)
  from False assms show ?thesis
    using none other
    by (auto simp: unique_votes_def upsert_vote_def list_all_iff)
      (auto simp: vote_conflict_def)
qed

text \<open>
  After an upsert the table holds exactly one row with the keys of the vote, and that row
  holds the value just written.
\<close>

lemma upsert_vote_row:
  assumes uniq: "unique_votes st"
  shows "filter (vote_conflict (Some p) (Some u)) (votes (upsert_vote st (Some p) (Some u) x))
         = [\<lparr>votes_post_id = Some p, votes_user_id = Some u, votes_vote_type = x\<rparr>]"
proof -
  let ?P = "filter (vote_conflict (Some p) (Some u)) (votes st)"
  have le: "length ?P \<le> 1"
    by (rule unique_votes_le1[OF uniq])
  show ?thesis
  proof (cases "list_ex (vote_conflict (Some p) (Some u)) (votes st)")
    case True
    then have "?P \<noteq> []" by (auto simp: list_ex_iff filter_empty_conv)
    with le obtain v where v: "?P = [v]"
      by (cases ?P) auto
    then have "v \<in> set ?P" by simp
    then have c: "vote_conflict (Some p) (Some u) v" by simp
    then have "v\<lparr>votes_vote_type := x\<rparr> =
        \<lparr>votes_post_id = Some p, votes_user_id = Some u, votes_vote_type = x\<rparr>"
      by (cases v) (simp add: vote_conflict_def)
    with True v c show ?thesis
      by (simp add: upsert_vote_def conflict_map_vote_type)
  next
    case False
    then have "?P = []" by (auto simp: list_ex_iff filter_empty_conv)
    with False show ?thesis by (simp add: upsert_vote_def vote_conflict_def)
  qed
qed

text \<open>The rows of the other users are left alone.\<close>

lemma upsert_vote_others:
  "filter (\<lambda>v. \<not> vote_conflict (Some p) (Some u) v) (votes (upsert_vote st (Some p) (Some u) x))
     = filter (\<lambda>v. \<not> vote_conflict (Some p) (Some u) v) (votes st)"
proof (cases "list_ex (vote_conflict (Some p) (Some u)) (votes st)")
  case True
  have "filter (\<lambda>v. \<not> vote_conflict (Some p) (Some u) v)
          (map (\<lambda>v. if vote_conflict (Some p) (Some u) v then v\<lparr>votes_vote_type := x\<rparr> else v) vs)
        = filter (\<lambda>v. \<not> vote_conflict (Some p) (Some u) v) vs" for vs
    by (induction vs) (auto simp: vote_conflict_def)
  with True show ?thesis by (simp add: upsert_vote_def)
next
  case False
  then show ?thesis by (simp add: upsert_vote_def vote_conflict_def)
qed

lemma count_votes_split:
  "count_votes st (Some p) k
     = other_votes st p u k
       + length (filter (\<lambda>v. votes_vote_type v = Sql_number k)
           (filter (vote_conflict (Some p) (Some u)) (votes st)))"
proof -
  have "length (filter (\<lambda>v. a v \<and> t v) vs)
      = length (filter (\<lambda>v. a v \<and> \<not> c v \<and> t v) vs) + length (filter (\<lambda>v. a v \<and> c v \<and> t v) vs)"
    for a c t :: "votes_row \<Rightarrow> bool" and vs
    by (induction vs) auto
  from this[of "\<lambda>v. votes_post_id v = Some p" "\<lambda>v. votes_vote_type v = Sql_number k" "votes st"
      "\<lambda>v. votes_user_id v = Some u"]
  show ?thesis
    by (simp add: count_votes_def other_votes_def vote_conflict_def conj_ac)
qed

lemma other_votes_upsert:
  "other_votes (upsert_vote st (Some p) (Some u) x) p u k = other_votes st p u k"
proof -
  have "other_votes s p u k
      = length (filter (\<lambda>v. votes_post_id v = Some p \<and> votes_vote_type v = Sql_number k)
          (filter (\<lambda>v. \<not> vote_conflict (Some p) (Some u) v) (votes s)))" for s
    by (auto simp: other_votes_def vote_conflict_def intro!: arg_cong[where f = length] filter_cong)
  then show ?thesis
    by (simp only: upsert_vote_others)
qed

text \<open>What a vote by \<open>u\<close> on \<open>p\<close> with the value \<open>x\<close> makes of the count for \<open>k\<close>.\<close>

lemma count_votes_upsert:
  assumes "unique_votes st"
  shows "count_votes (upsert_vote st (Some p) (Some u) x) (Some p) k
     = other_votes st p u k + (if x = Sql_number k then 1 else 0)"
  unfolding count_votes_split[of _ p k u] upsert_vote_row[OF assms] other_votes_upsert
  by simp





text \<open>A NULL id is inserted again each time.\<close>

lemma insert_or_ignore_user_null:
  "length (users (insert_or_ignore_user st None)) = Suc (length (users st))"
  by (simp add: insert_or_ignore_user_def)






text \<open>What each handler leaves in \<^verbatim>\<open>db\<close>.\<close>

lemma try_db_first_votes:
  "\<exists>st'. fst (try_db_first e (Sqlite st) b) = Sqlite st' \<and> votes st' = votes st"
  by (simp add: Let_def insert_or_ignore_user_def insert_post_def split: sum.splits)

lemma create_post_db:
  "db (snd (create_post s e b))
     = Some (if falsy (b_place_name b) then fst (getDb s e)
             else fst (try_db_first e (fst (getDb s e)) b))"
proof (cases "falsy (b_place_name b)")
  case True
  then show ?thesis by (simp add: create_post_rejected getDb_db)
next
  case False
  from create_post_cases[OF False, of e s] show ?thesis
    using False by (auto simp: fallback_to_memory_def emit_def)
qed

lemma cast_vote_db_votes:
  "\<exists>st'. fst (cast_vote_db e (Sqlite st) b) = Sqlite st'
     \<and> (st' = st \<or> (\<exists>x. st' = upsert_vote st (vb_post_id b) (vb_user_id b) x))"
  by (cases "bind (vb_vote_type b)") (auto simp: Let_def)

lemma cast_vote_database:
  "db (snd (cast_vote s e b)) = Some (fst (cast_vote_db e (fst (getDb s e)) b))"
  by (cases "getDb s e"; cases "cast_vote_db e (fst (getDb s e)) b")
    (auto simp: cast_vote_def emit_def Let_def split: sum.splits)

lemma create_report_database:
  "db (snd (create_report s e b))
     = Some (case create_report_db e (fst (getDb s e)) b of Inr d \<Rightarrow> d | Inl err \<Rightarrow> fst (getDb s e))"
  using getDb_db[of s e]
  by (cases "getDb s e") (auto simp: create_report_def split: sum.splits)

text \<open>Every handler keeps the unique key of \<open>votes\<close>.\<close>

lemma handle_unique_votes:
  assumes g: "fst (getDb s e) = Sqlite st" and u: "unique_votes st"
    and d: "db (snd (handle s (e, r))) = Some (Sqlite st')"
  shows "unique_votes st'"
proof (cases r)
  case List_posts
  with d have "db (snd (getDb s e)) = Some (Sqlite st')"
    by (simp add: list_posts_state)
  with g have "st' = st" by (simp add: getDb_db)
  with u show ?thesis by simp
next
  case (Create_post b)
  from try_db_first_votes[of e st b] obtain st1
    where t: "fst (try_db_first e (Sqlite st) b) = Sqlite st1" and v: "votes st1 = votes st"
    by blast
  from d Create_post have "db (snd (create_post s e b)) = Some (Sqlite st')" by simp
  then have "st' = st \<or> st' = st1"
    unfolding create_post_db g t by (cases "falsy (b_place_name b)") simp_all
  with v have "votes st' = votes st" by auto
  with u show ?thesis by (simp add: unique_votes_def)
next
  case (Cast_vote b)
  from cast_vote_db_votes[of e st b] obtain st1
    where t: "fst (cast_vote_db e (Sqlite st) b) = Sqlite st1"
      and v: "st1 = st \<or> (\<exists>x. st1 = upsert_vote st (vb_post_id b) (vb_user_id b) x)"
    by blast
  from d Cast_vote have "db (snd (cast_vote s e b)) = Some (Sqlite st')" by simp
  then have "st' = st1"
    unfolding cast_vote_database g t by simp
  with v u show ?thesis by (auto intro: unique_votes_upsert)
next
  case (Create_report b)
  from d Create_report have "db (snd (create_report s e b)) = Some (Sqlite st')" by simp
  then have "st' = st \<or> st' = insert_report st b"
    unfolding create_report_database g
    by (cases "fault e Insert_report") simp_all
  then have "votes st' = votes st" by (auto simp: insert_report_def)
  with u show ?thesis by (simp add: unique_votes_def)
qed

section \<open>Votes\<close>

text \<open>
  C1 as stated fails on a post another user has voted on: after \<open>user_2\<close> voted 1 on the
  post, a vote of 1 by \<open>user_1\<close> is answered with the tallies (2, 0), not (1, 0).
\<close>

theorem another_voter_is_counted:
  "fst (cast_vote
     (run (startServer False 0 0 0 0) [(quiet 1, Cast_vote (vote_of ''post_1'' ''user_2'' 1))])
     (quiet 2) (vote_of ''post_1'' ''user_1'' 1))
   = \<lparr>status = 200, body = Vote_json
       \<lparr>vu_post_id = Some ''post_1'', vu_true_votes = Some 2, vu_false_votes = Some 0\<rparr>\<rparr>"
  by (simp add: handler_defs fixture_defs sql_defs)

text \<open>
  C1, amended. On a connected store whose statements do not throw, for every post \<open>p\<close>
  and user \<open>u\<close>: a vote of 1 by \<open>u\<close> on \<open>p\<close> is answered with the other users'
  tallies for \<open>p\<close> plus (1, 0), a following vote of 0 by \<open>u\<close> with the other users'
  tallies plus (0, 1); afterwards \<open>votes\<close> holds exactly one row with the keys
  (\<open>p\<close>, \<open>u\<close>), it holds the value 0, and the table still has its unique key. When no
  other user has voted on \<open>p\<close> the two answers are (1, 0) and (0, 1).
\<close>

theorem revote_overwrites:
  fixes p u :: string
  assumes db: "fst (getDb s e1) = Sqlite st"
    and uniq: "unique_votes st"
    and ok1: "\<not> fault e1 Upsert_vote" "\<not> fault e1 Select_stats"
    and ok2: "\<not> fault e2 Upsert_vote" "\<not> fault e2 Select_stats"
  shows "fst (cast_vote s e1 (vote_of p u 1)) = \<lparr>status = 200, body = Vote_json
             \<lparr>vu_post_id = Some p, vu_true_votes = Some (other_votes st p u 1 + 1),
              vu_false_votes = Some (other_votes st p u 0)\<rparr>\<rparr>
       \<and> fst (cast_vote (snd (cast_vote s e1 (vote_of p u 1))) e2 (vote_of p u 0))
           = \<lparr>status = 200, body = Vote_json
             \<lparr>vu_post_id = Some p, vu_true_votes = Some (other_votes st p u 1),
              vu_false_votes = Some (other_votes st p u 0 + 1)\<rparr>\<rparr>
       \<and> (\<exists>st2. db (snd (cast_vote (snd (cast_vote s e1 (vote_of p u 1))) e2 (vote_of p u 0)))
               = Some (Sqlite st2)
             \<and> unique_votes st2
             \<and> filter (\<lambda>v. votes_post_id v = Some p \<and> votes_user_id v = Some u) (votes st2)
                 = [\<lparr>votes_post_id = Some p, votes_user_id = Some u,
                     votes_vote_type = Sql_number 0\<rparr>])
       \<and> ((\<forall>v\<in>set (votes st). votes_post_id v = Some p \<longrightarrow> votes_user_id v = Some u) \<longrightarrow>
             other_votes st p u 1 = 0 \<and> other_votes st p u 0 = 0)"
proof -
  let ?st1 = "upsert_vote st (Some p) (Some u) (Sql_number 1)"
  let ?st2 = "upsert_vote ?st1 (Some p) (Some u) (Sql_number 0)"
  let ?r1 = "cast_vote s e1 (vote_of p u 1)"
  let ?r2 = "cast_vote (snd ?r1) e2 (vote_of p u 0)"
  have c1: "?r1 = (\<lparr>status = 200, body = Vote_json (select_stats ?st1 (Some p))\<rparr>,
            emit (Post_voted (select_stats ?st1 (Some p)))
              ((snd (getDb s e1))\<lparr>db := Some (Sqlite ?st1)\<rparr>))"
    using cast_vote_ok[OF db ok1, of "vote_of p u 1" "Sql_number 1" ?st1]
    by (simp add: vote_of_def)
  have g: "fst (getDb (snd ?r1) e2) = Sqlite ?st1"
    by (subst c1) (simp add: getDb_cached)
  have c2: "?r2 = (\<lparr>status = 200, body = Vote_json (select_stats ?st2 (Some p))\<rparr>,
            emit (Post_voted (select_stats ?st2 (Some p)))
              ((snd (getDb (snd ?r1) e2))\<lparr>db := Some (Sqlite ?st2)\<rparr>))"
    using cast_vote_ok[OF g ok2, of "vote_of p u 0" "Sql_number 0" ?st2]
    by (simp add: vote_of_def)
  have u1: "unique_votes ?st1"
    by (intro unique_votes_upsert uniq)
  have u2: "unique_votes ?st2"
    by (intro unique_votes_upsert u1)
  have s1: "select_stats ?st1 (Some p)
      = \<lparr>vu_post_id = Some p, vu_true_votes = Some (other_votes st p u 1 + 1),
         vu_false_votes = Some (other_votes st p u 0)\<rparr>"
    by (simp add: select_stats_def count_votes_upsert[OF uniq])
  have s2: "select_stats ?st2 (Some p)
      = \<lparr>vu_post_id = Some p, vu_true_votes = Some (other_votes st p u 1),
         vu_false_votes = Some (other_votes st p u 0 + 1)\<rparr>"
    by (simp add: select_stats_def count_votes_upsert[OF u1] other_votes_upsert)
  have f2: "filter (\<lambda>v. votes_post_id v = Some p \<and> votes_user_id v = Some u) (votes ?st2)
      = [\<lparr>votes_post_id = Some p, votes_user_id = Some u, votes_vote_type = Sql_number 0\<rparr>]"
  proof -
    have "(\<lambda>v. votes_post_id v = Some p \<and> votes_user_id v = Some u)
        = vote_conflict (Some p) (Some u)"
      by (auto simp: vote_conflict_def fun_eq_iff)
    then show ?thesis
      using upsert_vote_row[OF u1, of p u "Sql_number 0"] by simp
  qed
  have d2: "db (snd ?r2) = Some (Sqlite ?st2)"
    by (subst c2) (simp add: emit_def)
  have a1: "fst ?r1 = \<lparr>status = 200, body = Vote_json
      \<lparr>vu_post_id = Some p, vu_true_votes = Some (other_votes st p u 1 + 1),
       vu_false_votes = Some (other_votes st p u 0)\<rparr>\<rparr>"
    by (subst c1) (simp add: s1)
  have a2: "fst ?r2 = \<lparr>status = 200, body = Vote_json
      \<lparr>vu_post_id = Some p, vu_true_votes = Some (other_votes st p u 1),
       vu_false_votes = Some (other_votes st p u 0 + 1)\<rparr>\<rparr>"
    by (subst c2) (simp add: s2)
  have z: "other_votes st p u 1 = 0 \<and> other_votes st p u 0 = 0"
    if "\<forall>v\<in>set (votes st). votes_post_id v = Some p \<longrightarrow> votes_user_id v = Some u"
    using that by (auto simp: other_votes_def filter_empty_conv)
  from a1 a2 d2 u2 f2 z show ?thesis by blast
qed

text \<open>
  On a fresh store the answers are (1, 0) and (0, 1); after a vote of 1 by another user
  they are (2, 0) and (1, 1).
\<close>

theorem revote_overwrites_witness:
  "fst (cast_vote (startServer False 0 0 0 0) (quiet 1) (vote_of ''post_1'' ''user_1'' 1))
     = \<lparr>status = 200, body = Vote_json
         \<lparr>vu_post_id = Some ''post_1'', vu_true_votes = Some 1, vu_false_votes = Some 0\<rparr>\<rparr>
   \<and> fst (cast_vote (snd (cast_vote (startServer False 0 0 0 0) (quiet 1)
             (vote_of ''post_1'' ''user_1'' 1))) (quiet 2) (vote_of ''post_1'' ''user_1'' 0))
     = \<lparr>status = 200, body = Vote_json
         \<lparr>vu_post_id = Some ''post_1'', vu_true_votes = Some 0, vu_false_votes = Some 1\<rparr>\<rparr>
   \<and> fst (cast_vote (snd (cast_vote
        (run (startServer False 0 0 0 0) [(quiet 1, Cast_vote (vote_of ''post_1'' ''user_2'' 1))])
        (quiet 2) (vote_of ''post_1'' ''user_1'' 1))) (quiet 3) (vote_of ''post_1'' ''user_1'' 0))
     = \<lparr>status = 200, body = Vote_json
         \<lparr>vu_post_id = Some ''post_1'', vu_true_votes = Some 1, vu_false_votes = Some 1\<rparr>\<rparr>"
proof -
  let ?st = "\<lparr>users = [], posts = [],
    votes = [\<lparr>votes_post_id = Some ''post_1'', votes_user_id = Some ''user_2'',
      votes_vote_type = Sql_number 1\<rparr>], reports = []\<rparr>"
  let ?s = "run (startServer False 0 0 0 0) [(quiet 1, Cast_vote (vote_of ''post_1'' ''user_2'' 1))]"
  have a: "fst (getDb (startServer False 0 0 0 0) (quiet 1)) = Sqlite empty_store"
    by (simp add: getDb_def startServer_def quiet_def Let_def)
  have b: "unique_votes empty_store"
    by (simp add: unique_votes_def empty_store_def)
  have o: "other_votes empty_store ''post_1'' ''user_1'' 1 = 0"
    "other_votes empty_store ''post_1'' ''user_1'' 0 = 0"
    by (simp_all add: other_votes_def empty_store_def)
  have d: "\<not> fault (quiet 1) Upsert_vote" "\<not> fault (quiet 1) Select_stats"
    "\<not> fault (quiet 2) Upsert_vote" "\<not> fault (quiet 2) Select_stats"
    "\<not> fault (quiet 3) Upsert_vote" "\<not> fault (quiet 3) Select_stats"
    by (simp_all add: quiet_def)
  have a': "fst (getDb ?s (quiet 2)) = Sqlite ?st"
    by (simp add: handler_defs fixture_defs sql_defs)
  have b': "unique_votes ?st"
    by (simp add: unique_votes_def vote_conflict_def)
  have o': "other_votes ?st ''post_1'' ''user_1'' 1 = 1"
    "other_votes ?st ''post_1'' ''user_1'' 0 = 0"
    by (simp_all add: other_votes_def)
  from revote_overwrites[OF a b d(1-4), of "''post_1''" "''user_1''"] o
  have fresh: "fst (cast_vote (startServer False 0 0 0 0) (quiet 1) (vote_of ''post_1'' ''user_1'' 1))
     = \<lparr>status = 200, body = Vote_json
         \<lparr>vu_post_id = Some ''post_1'', vu_true_votes = Some 1, vu_false_votes = Some 0\<rparr>\<rparr>
   \<and> fst (cast_vote (snd (cast_vote (startServer False 0 0 0 0) (quiet 1)
             (vote_of ''post_1'' ''user_1'' 1))) (quiet 2) (vote_of ''post_1'' ''user_1'' 0))
     = \<lparr>status = 200, body = Vote_json
         \<lparr>vu_post_id = Some ''post_1'', vu_true_votes = Some 0, vu_false_votes = Some 1\<rparr>\<rparr>"
    by simp
  from revote_overwrites[OF a' b' d(3-6), of "''post_1''" "''user_1''"] o'
  have voted: "fst (cast_vote (snd (cast_vote ?s (quiet 2) (vote_of ''post_1'' ''user_1'' 1)))
        (quiet 3) (vote_of ''post_1'' ''user_1'' 0))
     = \<lparr>status = 200, body = Vote_json
         \<lparr>vu_post_id = Some ''post_1'', vu_true_votes = Some 1, vu_false_votes = Some 1\<rparr>\<rparr>"
    by simp
  from fresh voted show ?thesis by (intro conjI) simp_all
qed




section \<open>Creating posts\<close>

text \<open>
  C5. A create-post request with a place name that is answered 201 is answered with a
  post record whose \<open>true_votes\<close> and \<open>false_votes\<close> are both 0, whether the record
  was read back from the store or built for the memory fallback.
\<close>

theorem create_post_zero_tallies:
  assumes "\<not> falsy (b_place_name b)" and "status (fst (create_post s e b)) = 201"
  shows "\<exists>p. body (fst (create_post s e b)) = Post_json p
     \<and> p_true_votes p = 0 \<and> p_false_votes p = 0"
  using create_post_cases[OF assms(1), of e s]
  by (auto simp: fallback_to_memory_def memPost_def dest: try_db_first_zero)

theorem create_post_zero_tallies_witness:
  "\<not> falsy (b_place_name test_mosque)
   \<and> status (fst (create_post (startServer False 0 0 0 0) (quiet 1) test_mosque)) = 201
   \<and> status (fst (create_post (startServer False 0 0 0 0) (failing 1) test_mosque)) = 201
   \<and> (\<exists>p. body (fst (create_post (startServer False 0 0 0 0) (quiet 1) test_mosque)) = Post_json p
         \<and> p_true_votes p = 0 \<and> p_false_votes p = 0)
   \<and> (\<exists>p. body (fst (create_post (startServer False 0 0 0 0) (failing 1) test_mosque)) = Post_json p
         \<and> p_true_votes p = 0 \<and> p_false_votes p = 0)"
proof -
  have h: "\<not> falsy (b_place_name test_mosque)"
    by (simp add: falsy_def test_mosque_def)
  have q: "status (fst (create_post (startServer False 0 0 0 0) (quiet 1) test_mosque)) = 201"
    by (simp add: handler_defs fixture_defs sql_defs)
  have f: "status (fst (create_post (startServer False 0 0 0 0) (failing 1) test_mosque)) = 201"
    by (simp add: handler_defs fixture_defs sql_defs)
  from h q f create_post_zero_tallies[OF h q] create_post_zero_tallies[OF h f]
  show ?thesis by blast
qed

text \<open>
  The handler of \<^verbatim>\<open>server.ts\<close> answers a request without a place name with 400 and
  leaves the tables, \<^verbatim>\<open>memoryPosts\<close> and the channel as they were.
\<close>

lemma create_post_missing_place_name:
  assumes "b_place_name b = None"
  shows "fst (create_post s e b) = \<lparr>status = 400, body = Error_json ''Place name is required''\<rparr>
     \<and> fst (getDb (snd (create_post s e b)) e') = fst (getDb s e)
     \<and> memoryPosts (snd (create_post s e b)) = memoryPosts s
     \<and> ioInstance (snd (create_post s e b)) = ioInstance s"
proof -
  have "falsy (b_place_name b)" using assms by (simp add: falsy_def)
  then have c: "create_post s e b =
      (\<lparr>status = 400, body = Error_json ''Place name is required''\<rparr>, snd (getDb s e))"
    by (rule create_post_rejected)
  have "fst (getDb (snd (getDb s e)) e') = fst (getDb s e)"
    using getDb_db[of s e] by (simp add: getDb_def)
  then show ?thesis
    by (simp add: c getDb_memoryPosts getDb_ioInstance)
qed

text \<open>
  C2. The create-post handler of \<^verbatim>\<open>src/unnamed/part_000\<close>, given a body without
  \<open>place_name\<close>, answers 201: when the statements succeed it stores a row of \<open>posts\<close>
  whose place name is NULL and emits it, and when they throw it prepends the record to
  \<^verbatim>\<open>memoryPosts\<close> and emits that.
\<close>

theorem part_000_accepts_missing_place_name:
  "b_place_name no_place_name = None
   \<and> status_000 (fst (create_post_000 fresh_000 (quiet 1) no_place_name)) = 201
   \<and> map posts_place_name (posts (db_000 (snd (create_post_000 fresh_000 (quiet 1) no_place_name))))
       = [None]
   \<and> ioInstance_000 (snd (create_post_000 fresh_000 (quiet 1) no_place_name))
       = Some [body_000 (fst (create_post_000 fresh_000 (quiet 1) no_place_name))]
   \<and> status_000 (fst (create_post_000 fresh_000 (failing 1) no_place_name)) = 201
   \<and> memoryPosts_000 (snd (create_post_000 fresh_000 (failing 1) no_place_name))
       = [memPost (failing 1) no_place_name]
   \<and> ioInstance_000 (snd (create_post_000 fresh_000 (failing 1) no_place_name))
       = Some [Some (memPost (failing 1) no_place_name)]"
  by (simp add: create_post_000_def fallback_to_memory_000_def emit_000_def Let_def
      fixture_defs insert_or_ignore_user_def insert_post_def)

text \<open>Whatever the statements do, that handler never answers 400.\<close>

lemma create_post_000_status: "status_000 (fst (create_post_000 s e b)) = 201"
  by (simp add: create_post_000_def fallback_to_memory_000_def Let_def split: sum.splits)

text \<open>
  C8 as stated fails in production: \<^verbatim>\<open>startServer\<close> leaves \<^verbatim>\<open>ioInstance\<close> null there,
  and a post is created with 201 while nothing is emitted.
\<close>

theorem production_emits_nothing:
  "status (fst (create_post (startServer True 0 0 0 0) (quiet 1) test_mosque)) = 201
   \<and> ioInstance (snd (create_post (startServer True 0 0 0 0) (quiet 1) test_mosque)) = None"
  by (simp add: handler_defs fixture_defs sql_defs)

text \<open>
  C8, amended. When the channel exists (\<^verbatim>\<open>ioInstance\<close> is set, which
  \<^verbatim>\<open>startServer\<close> does outside production), a create-post request answered 201 appends
  exactly one \<^verbatim>\<open>post:created\<close> event to what the channel has emitted, and its payload is
  the record of the answer.
\<close>

theorem create_post_emits_once:
  assumes "status (fst (create_post s e b)) = 201" and "ioInstance s = Some evs"
  shows "\<exists>p. body (fst (create_post s e b)) = Post_json p
     \<and> ioInstance (snd (create_post s e b)) = Some (evs @ [Post_created p])"
  using assms getDb_ioInstance[of s e]
  by (auto simp: create_post_def fallback_to_memory_def emit_def Let_def
      split: prod.splits sum.splits option.splits if_splits)

theorem create_post_emits_once_witness:
  "status (fst (create_post (startServer False 0 0 0 0) (quiet 1) test_mosque)) = 201
   \<and> ioInstance (startServer False 0 0 0 0) = Some []
   \<and> (\<exists>p. body (fst (create_post (startServer False 0 0 0 0) (quiet 1) test_mosque)) = Post_json p
         \<and> ioInstance (snd (create_post (startServer False 0 0 0 0) (quiet 1) test_mosque))
             = Some ([] @ [Post_created p]))"
proof -
  have q: "status (fst (create_post (startServer False 0 0 0 0) (quiet 1) test_mosque)) = 201"
    by (simp add: handler_defs fixture_defs sql_defs)
  have i: "ioInstance (startServer False 0 0 0 0) = Some []"
    by (simp add: startServer_def)
  from q i create_post_emits_once[OF q i] show ?thesis by blast
qed

text \<open>Without a channel nothing is emitted.\<close>

lemma create_post_no_channel:
  assumes "ioInstance s = None"
  shows "ioInstance (snd (create_post s e b)) = None"
  using assms getDb_ioInstance[of s e]
  by (auto simp: create_post_def fallback_to_memory_def emit_def Let_def
      split: prod.splits sum.splits option.splits if_splits)




section \<open>Failing writes\<close>

text \<open>
  C3 as stated fails for reports: on a connected store whose \<^verbatim>\<open>INSERT INTO reports\<close>
  throws, the answer is 500 with an error, not an acknowledgment.
\<close>

theorem create_report_failure_is_reported:
  "fst (getDb (startServer False 0 0 0 0) (failing 1)) = Sqlite empty_store
   \<and> fault (failing 1) Insert_report
   \<and> fst (create_report (startServer False 0 0 0 0) (failing 1) spam_report)
       = \<lparr>status = 500, body = Error_json ''Failed to report''\<rparr>"
  by (simp add: handler_defs fixture_defs)

text \<open>
  C3, amended. On a connected store, a vote whose upsert throws is answered 200 with the post
  id and both tallies 0, nothing is written and nothing is emitted; a report whose insert
  throws is answered 500 with the error "Failed to report".
\<close>

theorem store_write_failure_responses:
  assumes "fst (getDb s e) = Sqlite st"
  shows "(fault e Upsert_vote \<longrightarrow>
            cast_vote s e vb =
              (\<lparr>status = 200, body = Vote_json
                  \<lparr>vu_post_id = vb_post_id vb, vu_true_votes = Some 0,
                   vu_false_votes = Some 0\<rparr>\<rparr>,
               snd (getDb s e)))
       \<and> (fault e Insert_report \<longrightarrow>
            create_report s e rb =
              (\<lparr>status = 500, body = Error_json ''Failed to report''\<rparr>, snd (getDb s e)))"
  using assms getDb_db[of s e]
  by (auto simp: cast_vote_def create_report_def zero_votes_def split: prod.splits)

theorem store_write_failure_responses_witness:
  "fault (failing 1) Upsert_vote \<and> fault (failing 1) Insert_report
   \<and> fst (cast_vote (startServer False 0 0 0 0) (failing 1) (vote_of ''post_1'' ''user_1'' 1))
       = \<lparr>status = 200, body = Vote_json
           \<lparr>vu_post_id = Some ''post_1'', vu_true_votes = Some 0, vu_false_votes = Some 0\<rparr>\<rparr>
   \<and> fst (create_report (startServer False 0 0 0 0) (failing 1) spam_report)
       = \<lparr>status = 500, body = Error_json ''Failed to report''\<rparr>"
proof -
  have a: "fst (getDb (startServer False 0 0 0 0) (failing 1)) = Sqlite empty_store"
    by (simp add: getDb_def startServer_def failing_def Let_def)
  have f: "fault (failing 1) Upsert_vote" "fault (failing 1) Insert_report"
    by (simp_all add: failing_def)
  from store_write_failure_responses[OF a, of "vote_of ''post_1'' ''user_1'' 1" spam_report] f
  show ?thesis by (simp add: vote_of_def)
qed

section \<open>Listing posts\<close>

text \<open>
  C4 as stated fails for the two sample posts: the literal stamps sample-1 before
  sample-2, so when the clock moved between the two readings the answer lists the older
  sample first.
\<close>

theorem samples_oldest_first:
  "body (fst (list_posts (startServer False 0 0 0 1) (quiet 2)))
     = Posts [sample_1 0 0, sample_2 0 1]
   \<and> p_created_at (sample_1 0 0) < p_created_at (sample_2 0 1)
   \<and> \<not> newest_first [sample_1 0 0, sample_2 0 1]"
  by (simp add: handler_defs fixture_defs sql_defs newest_first_def sample_1_def sample_2_def)

text \<open>
  C4, amended. After any sequence of requests the list-posts answer is a first part, then
  the records created on the memory path with the most recently created first, then the two
  sample posts in the order of the literal. No post of the first part is followed in it by
  one created later, and when the store is connected and the query does not throw the first
  part holds every row of \<open>posts\<close>, once, with its tallies. When the clock readings of
  the requests do not decrease, no record created on the memory path is followed by one
  created later.
\<close>

theorem list_posts_order:
  "\<exists>sp. body (fst (list_posts (run (startServer production d1 c1 d2 c2) rs) e))
         = Posts (sp @ rev (memory_created (startServer production d1 c1 d2 c2) rs)
                     @ [sample_1 d1 c1, sample_2 d2 c2])
     \<and> newest_first sp
     \<and> (\<forall>st. fst (getDb (run (startServer production d1 c1 d2 c2) rs) e) = Sqlite st
             \<and> \<not> fault e Select_posts \<longrightarrow>
           mset sp = image_mset (with_tallies st) (mset (posts st)))
     \<and> (sorted (map (\<lambda>r. now (fst r)) rs) \<longrightarrow>
           newest_first (rev (memory_created (startServer production d1 c1 d2 c2) rs)))"
proof -
  let ?init = "startServer production d1 c1 d2 c2"
  let ?s = "run ?init rs"
  let ?m = "rev (memory_created ?init rs) @ [sample_1 d1 c1, sample_2 d2 c2]"
  have m0: "memoryPosts ?init = [sample_1 d1 c1, sample_2 d2 c2]"
    by (simp add: startServer_def)
  have m: "memoryPosts ?s = ?m"
    by (simp only: run_memoryPosts m0)
  have t: "sorted (map (\<lambda>r. now (fst r)) rs) \<longrightarrow> newest_first (rev (memory_created ?init rs))"
    by (simp add: memory_created_newest_first)
  have body: "body (fst (list_posts ?s e))
      = Posts ((case all_posts e (fst (getDb ?s e)) of Inr ps \<Rightarrow> ps | Inl err \<Rightarrow> []) @ ?m)"
    by (simp only: list_posts_body m response.simps)
  have key: ?thesis
    if "(case all_posts e (fst (getDb ?s e)) of Inr ps \<Rightarrow> ps | Inl err \<Rightarrow> []) = xs"
      and "newest_first xs"
      and "\<forall>st. fst (getDb ?s e) = Sqlite st \<and> \<not> fault e Select_posts \<longrightarrow>
           mset xs = image_mset (with_tallies st) (mset (posts st))"
    for xs
  proof (intro exI[of _ xs] conjI)
    show "body (fst (list_posts ?s e)) = Posts (xs @ ?m)"
      using body that(1) by simp
    show "newest_first xs" by (rule that(2))
    show "\<forall>st. fst (getDb ?s e) = Sqlite st \<and> \<not> fault e Select_posts \<longrightarrow>
           mset xs = image_mset (with_tallies st) (mset (posts st))" by (rule that(3))
    show "sorted (map (\<lambda>r. now (fst r)) rs) \<longrightarrow> newest_first (rev (memory_created ?init rs))"
      by (rule t)
  qed
  show ?thesis
  proof (cases "fst (getDb ?s e)")
    case Mock
    show ?thesis
      by (rule key[of "[]"]) (simp_all add: Mock newest_first_def)
  next
    case (Sqlite st)
    show ?thesis
    proof (cases "fault e Select_posts")
      case True
      show ?thesis
        by (rule key[of "[]"]) (simp_all add: Sqlite True newest_first_def)
    next
      case False
      show ?thesis
        by (rule key[of "select_posts st"])
          (simp_all add: Sqlite False newest_first_select_posts mset_select_posts)
    qed
  qed
qed

text \<open>
  A run at the times 1, 2 and 3: a post that falls back to memory, then two posts that reach
  the store; the answer lists the store's posts newest first, then the memory post, then the
  two samples.
\<close>

theorem list_posts_order_witness:
  "sorted (map (\<lambda>r. now (fst r))
      [(failing 1, Create_post test_mosque), (quiet 2, Create_post test_mosque),
       (quiet 3, Create_post (test_mosque\<lparr>b_id := Some ''post_2''\<rparr>))])
   \<and> memory_created (startServer False 0 0 0 1)
      [(failing 1, Create_post test_mosque), (quiet 2, Create_post test_mosque),
       (quiet 3, Create_post (test_mosque\<lparr>b_id := Some ''post_2''\<rparr>))]
       = [memPost (failing 1) test_mosque]
   \<and> (\<exists>sp. body (fst (list_posts (run (startServer False 0 0 0 1)
          [(failing 1, Create_post test_mosque), (quiet 2, Create_post test_mosque),
           (quiet 3, Create_post (test_mosque\<lparr>b_id := Some ''post_2''\<rparr>))]) (quiet 4)))
        = Posts (sp @ [memPost (failing 1) test_mosque, sample_1 0 0, sample_2 0 1])
      \<and> map p_id sp = [Some ''post_2'', Some ''post_1'']
      \<and> newest_first sp)"
proof -
  let ?rs = "[(failing 1, Create_post test_mosque), (quiet 2, Create_post test_mosque),
       (quiet 3, Create_post (test_mosque\<lparr>b_id := Some ''post_2''\<rparr>))]"
  let ?init = "startServer False 0 0 0 1"
  have h: "sorted (map (\<lambda>r. now (fst r)) ?rs)"
    by (simp add: quiet_def failing_def)
  have m: "memory_created ?init ?rs = [memPost (failing 1) test_mosque]"
    by (simp add: falls_back_def handler_defs fixture_defs sql_defs)
  from list_posts_order[of False 0 0 0 1 ?rs "quiet 4"] obtain sp where
    sp0: "body (fst (list_posts (run ?init ?rs) (quiet 4)))
          = Posts (sp @ rev (memory_created ?init ?rs) @ [sample_1 0 0, sample_2 0 1])"
    and nf: "newest_first sp"
    by blast
  from sp0 have sp: "body (fst (list_posts (run ?init ?rs) (quiet 4)))
        = Posts (sp @ [memPost (failing 1) test_mosque, sample_1 0 0, sample_2 0 1])"
    unfolding m by simp
  have ids: "map p_id sp = [Some ''post_2'', Some ''post_1'']"
  proof -
    have "\<exists>xs. body (fst (list_posts (run ?init ?rs) (quiet 4)))
        = Posts (xs @ [memPost (failing 1) test_mosque, sample_1 0 0, sample_2 0 1])
        \<and> map p_id xs = [Some ''post_2'', Some ''post_1'']"
      by (simp add: handler_defs fixture_defs sql_defs)
    then obtain xs where xs: "body (fst (list_posts (run ?init ?rs) (quiet 4)))
        = Posts (xs @ [memPost (failing 1) test_mosque, sample_1 0 0, sample_2 0 1])"
        "map p_id xs = [Some ''post_2'', Some ''post_1'']"
      by (elim exE conjE)
    from xs(1) sp have "xs = sp" by simp
    with xs(2) show ?thesis by simp
  qed
  show ?thesis
  proof (intro conjI exI)
    show "sorted (map (\<lambda>r. now (fst r)) ?rs)" by (rule h)
    show "memory_created ?init ?rs = [memPost (failing 1) test_mosque]" by (rule m)
    show "body (fst (list_posts (run ?init ?rs) (quiet 4)))
        = Posts (sp @ [memPost (failing 1) test_mosque, sample_1 0 0, sample_2 0 1])"
      by (rule sp)
    show "map p_id sp = [Some ''post_2'', Some ''post_1'']" by (rule ids)
    show "newest_first sp" by (rule nf)
  qed
qed

text \<open>
  C9. After any sequence of requests the list-posts answer ends with the two sample posts,
  whose ids are "sample-1" and "sample-2": it is a first part, then the posts added to
  \<^verbatim>\<open>memoryPosts\<close> since the module loaded, then the two samples; and when the store is
  connected and the query does not throw, the first part is the result of the query.
\<close>

theorem list_posts_samples:
  "\<exists>sp new. body (fst (list_posts (run (startServer production d1 c1 d2 c2) rs) e))
         = Posts (sp @ new @ [sample_1 d1 c1, sample_2 d2 c2])
     \<and> (\<forall>st. fst (getDb (run (startServer production d1 c1 d2 c2) rs) e) = Sqlite st
             \<and> \<not> fault e Select_posts \<longrightarrow> sp = select_posts st)
     \<and> p_id (sample_1 d1 c1) = Some ''sample-1'' \<and> p_id (sample_2 d2 c2) = Some ''sample-2''"
proof -
  let ?s = "run (startServer production d1 c1 d2 c2) rs"
  from run_memoryPosts_suffix[of "startServer production d1 c1 d2 c2" rs]
  obtain new where n: "memoryPosts ?s = new @ [sample_1 d1 c1, sample_2 d2 c2]"
    by (auto simp: startServer_def)
  have ids: "p_id (sample_1 d1 c1) = Some ''sample-1''
      \<and> p_id (sample_2 d2 c2) = Some ''sample-2''"
    by (simp add: sample_1_def sample_2_def)
  show ?thesis
  proof (cases "\<exists>st. fst (getDb ?s e) = Sqlite st \<and> \<not> fault e Select_posts")
    case True
    then obtain st where st: "fst (getDb ?s e) = Sqlite st" "\<not> fault e Select_posts"
      by blast
    then have "body (fst (list_posts ?s e))
        = Posts (select_posts st @ new @ [sample_1 d1 c1, sample_2 d2 c2])"
      using n by (simp add: list_posts_body)
    with st ids show ?thesis by auto
  next
    case False
    then have "body (fst (list_posts ?s e))
        = Posts ([] @ new @ [sample_1 d1 c1, sample_2 d2 c2])"
      using n
      by (cases "fst (getDb ?s e)") (auto simp: list_posts_body)
    with False ids show ?thesis by (auto simp del: append_Nil)
  qed
qed

text \<open>A fresh deployment with an empty, working store: the answer is the two samples.\<close>

theorem list_posts_samples_witness:
  "fst (getDb (run (startServer True 0 0 0 0) []) (quiet 1)) = Sqlite empty_store
   \<and> \<not> fault (quiet 1) Select_posts
   \<and> select_posts empty_store = []
   \<and> (\<exists>new. body (fst (list_posts (run (startServer True 0 0 0 0) []) (quiet 1)))
         = Posts ([] @ new @ [sample_1 0 0, sample_2 0 0]))
   \<and> body (fst (list_posts (startServer True 0 0 0 0) (quiet 1)))
       = Posts [sample_1 0 0, sample_2 0 0]"
proof -
  have a: "fst (getDb (run (startServer True 0 0 0 0) []) (quiet 1)) = Sqlite empty_store"
    by (simp add: getDb_def startServer_def quiet_def Let_def)
  have f: "\<not> fault (quiet 1) Select_posts"
    by (simp add: quiet_def)
  have e: "select_posts empty_store = []"
    by (simp add: select_posts_def order_by_created_at_desc_def empty_store_def)
  have d: "body (fst (list_posts (startServer True 0 0 0 0) (quiet 1)))
      = Posts [sample_1 0 0, sample_2 0 0]"
    by (simp add: handler_defs fixture_defs sql_defs)
  from list_posts_samples[of True 0 0 0 0 "[]" "quiet 1"] a f e
  have "\<exists>new. body (fst (list_posts (run (startServer True 0 0 0 0) []) (quiet 1)))
         = Posts ([] @ new @ [sample_1 0 0, sample_2 0 0])"
    by (elim exE conjE) (auto simp del: append_Nil)
  with a f e d show ?thesis by blast
qed

section \<open>Where tallies come from\<close>

text \<open>
  C6 as stated fails for the posts of \<^verbatim>\<open>memoryPosts\<close>: on a fresh server with an empty,
  working store the list-posts answer holds the first sample post with \<open>true_votes\<close> 15,
  while \<open>votes\<close> has no row for it.
\<close>

theorem sample_tally_not_counted:
  "fst (list_posts (startServer False 0 0 0 0) (quiet 1))
     = \<lparr>status = 200, body = Posts [sample_1 0 0, sample_2 0 0]\<rparr>
   \<and> db (snd (list_posts (startServer False 0 0 0 0) (quiet 1))) = Some (Sqlite empty_store)
   \<and> p_true_votes (sample_1 0 0) = 15
   \<and> count_votes empty_store (p_id (sample_1 0 0)) 1 = 0"
  by (simp add: handler_defs fixture_defs sql_defs sample_1_def)

text \<open>
  C6, amended. On a connected store: when the list query does not throw, the answer is the
  posts of the store followed by \<^verbatim>\<open>memoryPosts\<close>, and the tallies of each post of the
  store are the counts of the rows of \<open>votes\<close> for it with \<open>vote_type\<close> 1 and 0 at that
  moment; when the two statements of a vote do not throw (neither fails, and the driver
  binds the value \<open>x\<close> for \<open>vote_type\<close>), the tallies of the answer are the counts in
  \<open>votes\<close> as the upsert left it, and the \<^verbatim>\<open>post:voted\<close> event, if the channel exists,
  carries the same answer. The rows of \<open>posts\<close> have no tally field.
\<close>

theorem tallies_counted_at_read:
  assumes "fst (getDb s e) = Sqlite st"
  shows "(\<not> fault e Select_posts \<longrightarrow>
            body (fst (list_posts s e)) = Posts (select_posts st @ memoryPosts s)
          \<and> length (select_posts st) = length (posts st)
          \<and> (\<forall>q\<in>set (select_posts st).
                p_true_votes q = count_votes st (p_id q) 1
              \<and> p_false_votes q = count_votes st (p_id q) 0))
       \<and> (\<not> fault e Upsert_vote \<and> \<not> fault e Select_stats
            \<and> bind (vb_vote_type b) = Inr x \<longrightarrow>
            (\<exists>st' stats. db (snd (cast_vote s e b)) = Some (Sqlite st')
               \<and> st' = upsert_vote st (vb_post_id b) (vb_user_id b) (integer_affinity e x)
               \<and> stats = \<lparr>vu_post_id = vb_post_id b,
                    vu_true_votes = Some (count_votes st' (vb_post_id b) 1),
                    vu_false_votes = Some (count_votes st' (vb_post_id b) 0)\<rparr>
               \<and> body (fst (cast_vote s e b)) = Vote_json stats
               \<and> ioInstance (snd (cast_vote s e b))
                    = map_option (\<lambda>evs. evs @ [Post_voted stats]) (ioInstance s)))"
proof -
  have l: "body (fst (list_posts s e)) = Posts (select_posts st @ memoryPosts s)"
    if "\<not> fault e Select_posts"
    using that assms by (simp add: list_posts_body)
  have n: "length (select_posts st) = length (posts st)"
    by (simp add: select_posts_def order_by_created_at_desc_def)
  have v: "\<exists>st' stats. db (snd (cast_vote s e b)) = Some (Sqlite st')
               \<and> st' = upsert_vote st (vb_post_id b) (vb_user_id b) (integer_affinity e x)
               \<and> stats = \<lparr>vu_post_id = vb_post_id b,
                    vu_true_votes = Some (count_votes st' (vb_post_id b) 1),
                    vu_false_votes = Some (count_votes st' (vb_post_id b) 0)\<rparr>
               \<and> body (fst (cast_vote s e b)) = Vote_json stats
               \<and> ioInstance (snd (cast_vote s e b))
                    = map_option (\<lambda>evs. evs @ [Post_voted stats]) (ioInstance s)"
    if "\<not> fault e Upsert_vote" "\<not> fault e Select_stats" "bind (vb_vote_type b) = Inr x"
    using getDb_ioInstance[of s e]
    by (simp add: cast_vote_ok[OF assms that refl] emit_def select_stats_def)
  from l n v select_posts_tallies[of _ st] show ?thesis by blast
qed

text \<open>
  A post is created and voted for; the vote is answered (1, 0), the event carries the same,
  and the list shows the post of the store with the tallies (1, 0).
\<close>

theorem tallies_counted_at_read_witness:
  "(\<exists>st. fst (getDb (run (startServer False 0 0 0 0) [(quiet 1, Create_post test_mosque)]) (quiet 2))
        = Sqlite st
     \<and> body (fst (cast_vote (run (startServer False 0 0 0 0) [(quiet 1, Create_post test_mosque)])
          (quiet 2) (vote_of ''post_1'' ''user_1'' 1)))
        = Vote_json \<lparr>vu_post_id = Some ''post_1'', vu_true_votes = Some 1,
            vu_false_votes = Some 0\<rparr>)
   \<and> (\<exists>st. fst (getDb (run (startServer False 0 0 0 0)
          [(quiet 1, Create_post test_mosque),
           (quiet 2, Cast_vote (vote_of ''post_1'' ''user_1'' 1))]) (quiet 3)) = Sqlite st
     \<and> map (\<lambda>q. (p_id q, p_true_votes q, p_false_votes q)) (select_posts st)
          = [(Some ''post_1'', 1, 0)]
     \<and> (\<forall>q\<in>set (select_posts st).
                p_true_votes q = count_votes st (p_id q) 1
              \<and> p_false_votes q = count_votes st (p_id q) 0))"
proof -
  let ?s1 = "run (startServer False 0 0 0 0) [(quiet 1, Create_post test_mosque)]"
  let ?s2 = "run (startServer False 0 0 0 0)
          [(quiet 1, Create_post test_mosque),
           (quiet 2, Cast_vote (vote_of ''post_1'' ''user_1'' 1))]"
  obtain st1 where a1: "fst (getDb ?s1 (quiet 2)) = Sqlite st1"
    and c1: "count_votes (upsert_vote st1 (Some ''post_1'') (Some ''user_1'') (Sql_number 1))
        (Some ''post_1'') 1 = 1"
    and c0: "count_votes (upsert_vote st1 (Some ''post_1'') (Some ''user_1'') (Sql_number 1))
        (Some ''post_1'') 0 = 0"
    by (simp add: handler_defs fixture_defs sql_defs)
  obtain st2 where a2: "fst (getDb ?s2 (quiet 3)) = Sqlite st2"
    and m: "map (\<lambda>q. (p_id q, p_true_votes q, p_false_votes q)) (select_posts st2)
          = [(Some ''post_1'', 1, 0)]"
    by (simp add: handler_defs fixture_defs sql_defs)
  have f: "\<not> fault (quiet 2) Upsert_vote \<and> \<not> fault (quiet 2) Select_stats"
    "\<not> fault (quiet 3) Select_posts"
    by (simp_all add: quiet_def)
  from tallies_counted_at_read[OF a1, of "vote_of ''post_1'' ''user_1'' 1" "Sql_number 1"]
    f(1) c1 c0
  have v: "body (fst (cast_vote ?s1 (quiet 2) (vote_of ''post_1'' ''user_1'' 1)))
        = Vote_json \<lparr>vu_post_id = Some ''post_1'', vu_true_votes = Some 1,
            vu_false_votes = Some 0\<rparr>"
    by (auto simp: vote_of_def)
  from tallies_counted_at_read[OF a2] f(2)
  have l: "\<forall>q\<in>set (select_posts st2).
                p_true_votes q = count_votes st2 (p_id q) 1
              \<and> p_false_votes q = count_votes st2 (p_id q) 0"
    by blast
  show ?thesis
  proof (intro conjI exI)
    show "fst (getDb ?s1 (quiet 2)) = Sqlite st1" by (rule a1)
    show "body (fst (cast_vote ?s1 (quiet 2) (vote_of ''post_1'' ''user_1'' 1)))
        = Vote_json \<lparr>vu_post_id = Some ''post_1'', vu_true_votes = Some 1,
            vu_false_votes = Some 0\<rparr>" by (rule v)
    show "fst (getDb ?s2 (quiet 3)) = Sqlite st2" by (rule a2)
    show "map (\<lambda>q. (p_id q, p_true_votes q, p_false_votes q)) (select_posts st2)
          = [(Some ''post_1'', 1, 0)]" by (rule m)
    show "\<forall>q\<in>set (select_posts st2).
                p_true_votes q = count_votes st2 (p_id q) 1
              \<and> p_false_votes q = count_votes st2 (p_id q) 0" by (rule l)
  qed
qed

end
